theory Spec2Isabelle
  imports Main
begin

section \<open>The multiplayer service of Banana Runner (services/multiplayer)\<close>

text \<open>
  The service is a closure over five mutable variables and a store client. The model
  makes the variables a record that every operation takes and returns, and makes
  everything the service does to the outside (store requests, realtime channels,
  console output, consumer callbacks) a list of effects in the order the source
  performs them. What the store answers to an awaited request is an argument of the
  operation that awaits it. Each operation is run to completion: events arriving while
  an operation is suspended at an \<^verbatim>\<open>await\<close> are not interleaved.
\<close>

subsection \<open>Rows, values and errors\<close>

text \<open>
  A lobby object as the service holds it: a row of \<^verbatim>\<open>game_lobbies\<close>, or whatever
  object a change-feed notification carries as \<^verbatim>\<open>payload.new\<close>. A property that the
  object does not have reads as undefined, which is \<open>None\<close>; the empty object
  \<^verbatim>\<open>{}\<close> has none of the five. A row of \<^verbatim>\<open>lobby_players\<close> follows.
\<close>

record lobby =
  id_lobby :: "string option"
  code :: "string option"
  host_id :: "string option"
  land :: "string option"
  status :: "string option"

record player =
  lobby_id :: string
  player_id :: string
  is_ready :: bool

text \<open>
  A broadcast payload is whatever the sender passed to \<^verbatim>\<open>broadcastGameState\<close>: a
  JavaScript value of any shape. Numbers are integers here.
\<close>

datatype jsval =
    JUndefined
  | JNull
  | JBool bool
  | JNum int
  | JStr string
  | JObj "(string \<times> jsval) list"

text \<open>The error object of a store response, and the exception of a failed property read.\<close>

datatype store_error = StoreUnavailable | NotFound | Conflict | Unauthorized

datatype js_error = TypeError

subsection \<open>Effects\<close>

datatype effect =
    InsertLobby string string string string
  | SelectWaitingLobbies string
  | SelectLobbyByCode string
  | InsertPlayer "string option" string bool
  | SelectPlayers "string option"
  | UpdateLobbyStatus "string option" string
  | UpdatePlayerReady "string option" string bool
  | DeletePlayer "string option" string
  | DeleteLobby "string option"
  | Subscribe string
  | RemoveChannel string
  | Send string jsval
  | ConsoleError string
  | OnLobbyUpdate "lobby option"
  | OnPlayersUpdate "player list"
  | OnGameStart
  | OnOpponentScore jsval

text \<open>
  \<^item> \<open>InsertLobby code host_id land status\<close>, \<open>InsertPlayer lobby_id player_id is_ready\<close>:
    the two inserts;
  \<^item> \<open>UpdateLobbyStatus id status\<close>: \<^verbatim>\<open>update({status}).eq('id', id)\<close>;
  \<^item> \<open>UpdatePlayerReady lobby_id player_id is_ready\<close>, \<open>DeletePlayer lobby_id player_id\<close>,
    \<open>DeleteLobby id\<close>: the other writes;
  \<^item> \<open>Subscribe topic\<close>: a channel on \<open>topic\<close> is created and subscribed;
    \<open>RemoveChannel topic\<close>: \<^verbatim>\<open>removeChannel\<close> of the channel held for \<open>topic\<close>;
  \<^item> \<open>On...\<close>: a call of the consumer callback of that name.

  A lobby id in a request is the \<^verbatim>\<open>id\<close> read from a lobby object, undefined when the
  object has none.
\<close>

subsection \<open>The internal state\<close>

record service =
  supabaseClient :: bool
  currentLobby :: "lobby option"
  lobbyPlayers :: "player list"
  lobbySubscription :: "string option"
  playersSubscription :: "string option"
  isHost :: bool

text \<open>
  \<open>supabaseClient\<close> tells whether a client object was passed to the factory; it never
  changes. A subscription handle is the topic of its channel.
\<close>

definition createMultiplayerService :: "bool \<Rightarrow> service" where
  "createMultiplayerService client =
     \<lparr>supabaseClient = client, currentLobby = None, lobbyPlayers = [],
      lobbySubscription = None, playersSubscription = None, isHost = False\<rparr>"

subsection \<open>Join codes\<close>

text \<open>
  \<^verbatim>\<open>substring(indexStart, indexEnd)\<close> and \<^verbatim>\<open>toUpperCase()\<close> on strings of ASCII
  characters: both indices are clamped to the length and swapped when out of order;
  the letters a to z are replaced by A to Z.
\<close>

definition substring :: "nat \<Rightarrow> nat \<Rightarrow> string \<Rightarrow> string" where
  "substring indexStart indexEnd s =
     (let a = min indexStart (length s); b = min indexEnd (length s)
      in take (max a b - min a b) (drop (min a b) s))"

definition toUpperCase_char :: "char \<Rightarrow> char" where
  "toUpperCase_char c =
     (let n = (of_char c :: nat) in if 97 \<le> n \<and> n \<le> 122 then char_of (n - 32) else c)"

definition toUpperCase :: "string \<Rightarrow> string" where
  "toUpperCase s = map toUpperCase_char s"

text \<open>
  \<^verbatim>\<open>Math.random().toString(36).substring(2, 8).toUpperCase()\<close>. The argument \<open>r\<close> is
  the string \<^verbatim>\<open>Math.random().toString(36)\<close>: the draw written in base 36, which is
  \<^verbatim>\<open>0\<close> for the draw 0 and otherwise \<^verbatim>\<open>0.\<close> followed by the digits of the fraction,
  as many as the engine needs to tell the number from its neighbours.
\<close>

definition generateLobbyCode :: "string \<Rightarrow> string" where
  "generateLobbyCode r = toUpperCase (substring 2 8 r)"

text \<open>
  The digits of base 36 as \<^verbatim>\<open>toString(36)\<close> prints them (0 to 9, a to z), and the
  characters of a join code (0 to 9, A to Z).
\<close>

definition radix36_digit :: "char \<Rightarrow> bool" where
  "radix36_digit c =
     (let n = (of_char c :: nat) in (48 \<le> n \<and> n \<le> 57) \<or> (97 \<le> n \<and> n \<le> 122))"

definition upper_alnum :: "char \<Rightarrow> bool" where
  "upper_alnum c =
     (let n = (of_char c :: nat) in (48 \<le> n \<and> n \<le> 57) \<or> (65 \<le> n \<and> n \<le> 90))"

subsection \<open>Subscriptions\<close>

text \<open>A value inside a template string: undefined is written \<^verbatim>\<open>undefined\<close>.\<close>

definition interpolate :: "string option \<Rightarrow> string" where
  "interpolate v = (case v of Some x \<Rightarrow> x | None \<Rightarrow> ''undefined'')"

text \<open>
  \<^verbatim>\<open>unsubscribe\<close> removes the two channels whose handles the service holds and
  forgets the handles.
\<close>

definition unsubscribe :: "service \<Rightarrow> service \<times> effect list" where
  "unsubscribe s =
     (let (s1, e1) = (case lobbySubscription s of
                        Some ch \<Rightarrow> (s\<lparr>lobbySubscription := None\<rparr>, [RemoveChannel ch])
                      | None \<Rightarrow> (s, []));
          (s2, e2) = (case playersSubscription s1 of
                        Some ch \<Rightarrow> (s1\<lparr>playersSubscription := None\<rparr>, [RemoveChannel ch])
                      | None \<Rightarrow> (s1, []))
      in (s2, e1 @ e2))"

text \<open>
  \<^verbatim>\<open>refreshPlayers\<close> reads the membership rows of the lobby; \<open>resp\<close> is the store's
  answer. \<open>refreshPlayersResume\<close> is the part that runs when the answer is there: on
  an error the cached list stays and no callback is made.
\<close>

definition refreshPlayersResume ::
  "store_error + player list \<Rightarrow> service \<Rightarrow> service \<times> effect list" where
  "refreshPlayersResume resp s =
     (case resp of
        Inr data \<Rightarrow> (s\<lparr>lobbyPlayers := data\<rparr>, [OnPlayersUpdate data])
      | Inl err \<Rightarrow> (s, []))"

definition refreshPlayers ::
  "string option \<Rightarrow> store_error + player list \<Rightarrow> service \<Rightarrow> service \<times> effect list" where
  "refreshPlayers lobbyId resp s =
     (let (s1, e1) = refreshPlayersResume resp s in (s1, SelectPlayers lobbyId # e1))"

text \<open>
  \<^verbatim>\<open>subscribeToLobby\<close> drops the old subscriptions, opens the two change-feed
  channels of the lobby and sends the initial load of the players, which it does not
  await: the answer is a later event, handled by \<open>refreshPlayersResume\<close>.
\<close>

definition subscribeToLobby :: "string option \<Rightarrow> service \<Rightarrow> service \<times> effect list" where
  "subscribeToLobby lobbyId s =
     (let (s1, e1) = unsubscribe s;
          s2 = s1\<lparr>lobbySubscription := Some (''lobby:'' @ interpolate lobbyId)\<rparr>;
          s3 = s2\<lparr>playersSubscription := Some (''lobby_players:'' @ interpolate lobbyId)\<rparr>
      in (s3, e1 @ [Subscribe (''lobby:'' @ interpolate lobbyId),
                    Subscribe (''lobby_players:'' @ interpolate lobbyId),
                    SelectPlayers lobbyId]))"

subsection \<open>The readiness check\<close>

text \<open>
  \<^verbatim>\<open>checkAllReady\<close> changes no variable. Reading \<^verbatim>\<open>currentLobby.id\<close> while
  \<^verbatim>\<open>currentLobby\<close> is null throws.
\<close>

definition checkAllReady :: "service \<Rightarrow> js_error + effect list" where
  "checkAllReady s =
     (if \<not> isHost s \<or> length (lobbyPlayers s) < 2 then Inr []
      else if list_all is_ready (lobbyPlayers s) then
        (case currentLobby s of
           None \<Rightarrow> Inl TypeError
         | Some l \<Rightarrow> Inr [UpdateLobbyStatus (id_lobby l) ''playing''])
      else Inr [])"

text \<open>
  The two change-feed handlers that \<^verbatim>\<open>subscribeToLobby\<close> installs. The lobby handler
  gets \<^verbatim>\<open>payload.new\<close>: \<open>None\<close> when it is null or undefined, which the guard
  \<^verbatim>\<open>if (payload.new)\<close> rejects, and otherwise the object, which the guard lets through
  whatever properties it has, the empty object included. The players handler of lobby
  \<open>lobbyId\<close> refreshes and then checks readiness; its result is the state, the
  effects, and whether the check threw.
\<close>

definition lobbyChangeHandler :: "lobby option \<Rightarrow> service \<Rightarrow> service \<times> effect list" where
  "lobbyChangeHandler new s =
     (case new of
        None \<Rightarrow> (s, [])
      | Some l \<Rightarrow>
          (s\<lparr>currentLobby := Some l\<rparr>,
           OnLobbyUpdate (Some l) #
           (if status l = Some ''playing'' then [OnGameStart] else [])))"

definition playersChangeHandler ::
  "string option \<Rightarrow> store_error + player list \<Rightarrow> service \<Rightarrow> service \<times> effect list \<times> js_error option"
  where
  "playersChangeHandler lobbyId resp s =
     (let (s1, e1) = refreshPlayers lobbyId resp s
      in case checkAllReady s1 of
           Inr e2 \<Rightarrow> (s1, e1 @ e2, None)
         | Inl err \<Rightarrow> (s1, e1, Some err))"

text \<open>Delivering a sequence of lobby notifications, one after the other.\<close>

fun deliverLobbyChanges :: "lobby option list \<Rightarrow> service \<Rightarrow> service \<times> effect list" where
  "deliverLobbyChanges [] s = (s, [])"
| "deliverLobbyChanges (new # rest) s =
     (let (s1, e1) = lobbyChangeHandler new s;
          (s2, e2) = deliverLobbyChanges rest s1
      in (s2, e1 @ e2))"

subsection \<open>Creating, finding, joining and leaving\<close>

text \<open>
  \<^verbatim>\<open>joinLobby\<close> inserts the membership row; \<open>err\<close> is the error of the store's answer,
  if any. It returns nothing.
\<close>

definition joinLobby :: "string option \<Rightarrow> string \<Rightarrow> store_error option \<Rightarrow> effect list" where
  "joinLobby lobbyId playerId err =
     InsertPlayer lobbyId playerId False #
     (case err of Some e \<Rightarrow> [ConsoleError ''Error joining lobby:''] | None \<Rightarrow> [])"

text \<open>
  The answers of the store that an operation awaits: \<open>r\<close> is the random draw as
  printed in base 36, \<open>ins\<close> answers the insert of the lobby row, \<open>jerr\<close> is the error
  of the answer to the insert of the membership row.
\<close>

definition createLobby ::
  "string \<Rightarrow> string \<Rightarrow> string \<Rightarrow> store_error + lobby \<Rightarrow> store_error option \<Rightarrow>
   service \<Rightarrow> lobby option \<times> service \<times> effect list" where
  "createLobby hostId land' r ins jerr s =
     (if \<not> supabaseClient s \<or> hostId = [] then (None, s, [])
      else
        let code' = generateLobbyCode r;
            e0 = [InsertLobby code' hostId land' ''waiting'']
        in case ins of
             Inl err \<Rightarrow> (None, s, e0 @ [ConsoleError ''Error creating lobby:''])
           | Inr data \<Rightarrow>
               let s1 = s\<lparr>currentLobby := Some data\<rparr>;
                   s2 = s1\<lparr>isHost := True\<rparr>;
                   e1 = joinLobby (id_lobby data) hostId jerr;
                   (s3, e3) = subscribeToLobby (id_lobby data) s2
               in (Some data, s3, e0 @ e1 @ e3 @ [OnLobbyUpdate (currentLobby s3)]))"

text \<open>
  \<open>found\<close> is the data of the answer to the query for the oldest waiting lobby of
  another host, \<open>None\<close> when the store returned no data. The error of that answer is
  not looked at.
\<close>

definition findOrCreateLobby ::
  "string \<Rightarrow> string \<Rightarrow> lobby list option \<Rightarrow> string \<Rightarrow> store_error + lobby \<Rightarrow>
   store_error option \<Rightarrow> service \<Rightarrow> lobby option \<times> service \<times> effect list" where
  "findOrCreateLobby playerId land' found r ins jerr s =
     (if \<not> supabaseClient s \<or> playerId = [] then (None, s, [])
      else
        case found of
          Some (lobby # others) \<Rightarrow>
            let s1 = s\<lparr>currentLobby := Some lobby\<rparr>;
                s2 = s1\<lparr>isHost := False\<rparr>;
                e1 = joinLobby (id_lobby lobby) playerId jerr;
                (s3, e3) = subscribeToLobby (id_lobby lobby) s2
            in (Some lobby, s3,
                SelectWaitingLobbies playerId # e1 @ e3 @ [OnLobbyUpdate (currentLobby s3)])
        | _ \<Rightarrow>
            let (res, s1, e1) = createLobby playerId land' r ins jerr s
            in (res, s1, SelectWaitingLobbies playerId # e1))"

text \<open>\<open>look\<close> answers the lookup of the single waiting lobby with the code.\<close>

definition joinByCode ::
  "string \<Rightarrow> string \<Rightarrow> store_error + lobby option \<Rightarrow> store_error option \<Rightarrow>
   service \<Rightarrow> lobby option \<times> service \<times> effect list" where
  "joinByCode code' playerId look jerr s =
     (if \<not> supabaseClient s \<or> playerId = [] then (None, s, [])
      else
        let e0 = [SelectLobbyByCode (toUpperCase code')]
        in case look of
             Inr (Some lobby) \<Rightarrow>
               let s1 = s\<lparr>currentLobby := Some lobby\<rparr>;
                   s2 = s1\<lparr>isHost := False\<rparr>;
                   e1 = joinLobby (id_lobby lobby) playerId jerr;
                   (s3, e3) = subscribeToLobby (id_lobby lobby) s2
               in (Some lobby, s3, e0 @ e1 @ e3 @ [OnLobbyUpdate (currentLobby s3)])
           | _ \<Rightarrow> (None, s, e0 @ [ConsoleError ''Lobby not found:'']))"

text \<open>\<^verbatim>\<open>toggleReady\<close> returns the new flag; it changes no variable.\<close>

definition toggleReady :: "string \<Rightarrow> service \<Rightarrow> bool \<times> effect list" where
  "toggleReady playerId s =
     (case currentLobby s of
        None \<Rightarrow> (False, [])
      | Some l \<Rightarrow>
          if playerId = [] then (False, [])
          else
            let currentPlayer = find (\<lambda>p. player_id p = playerId) (lobbyPlayers s);
                newReady = (\<not> (case currentPlayer of None \<Rightarrow> False | Some p \<Rightarrow> is_ready p))
            in (newReady, [UpdatePlayerReady (id_lobby l) playerId newReady]))"

definition leaveLobby :: "string \<Rightarrow> service \<Rightarrow> service \<times> effect list" where
  "leaveLobby playerId s =
     (case currentLobby s of
        None \<Rightarrow> (s, [])
      | Some l \<Rightarrow>
          if playerId = [] then (s, [])
          else
            let e1 = [DeletePlayer (id_lobby l) playerId];
                e2 = (if isHost s then [DeleteLobby (id_lobby l)] else []);
                (s3, e3) = unsubscribe s;
                s4 = s3\<lparr>currentLobby := None\<rparr>;
                s5 = s4\<lparr>lobbyPlayers := []\<rparr>;
                s6 = s5\<lparr>isHost := False\<rparr>
            in (s6, e1 @ e2 @ e3 @ [OnLobbyUpdate None, OnPlayersUpdate []]))"

subsection \<open>Live game state\<close>

definition broadcastGameState :: "jsval \<Rightarrow> service \<Rightarrow> effect list" where
  "broadcastGameState state s =
     (case currentLobby s of
        None \<Rightarrow> []
      | Some l \<Rightarrow> [Send (''game:'' @ interpolate (id_lobby l)) state])"

text \<open>
  \<^verbatim>\<open>listenForOpponentState\<close> opens the broadcast channel of the lobby and keeps no
  handle of it.
\<close>

definition listenForOpponentState :: "string \<Rightarrow> service \<Rightarrow> effect list" where
  "listenForOpponentState playerId s =
     (case currentLobby s of
        None \<Rightarrow> []
      | Some l \<Rightarrow> [Subscribe (''game:'' @ interpolate (id_lobby l))])"

text \<open>
  Reading a property of a value: undefined and null throw, an object gives the first
  entry of that name or undefined, any other value gives undefined.
\<close>

definition getProp :: "jsval \<Rightarrow> string \<Rightarrow> js_error + jsval" where
  "getProp v name =
     (case v of
        JUndefined \<Rightarrow> Inl TypeError
      | JNull \<Rightarrow> Inl TypeError
      | JObj props \<Rightarrow> (case map_of props name of Some x \<Rightarrow> Inr x | None \<Rightarrow> Inr JUndefined)
      | _ \<Rightarrow> Inr JUndefined)"

text \<open>
  The handler that \<^verbatim>\<open>listenForOpponentState(playerId)\<close> installs; \<open>msg\<close> is
  \<^verbatim>\<open>payload.payload\<close> of the message received.
\<close>

definition opponentStateHandler :: "string \<Rightarrow> jsval \<Rightarrow> js_error + effect list" where
  "opponentStateHandler playerId msg =
     (case getProp msg ''playerId'' of
        Inl err \<Rightarrow> Inl err
      | Inr sender \<Rightarrow> Inr (if sender \<noteq> JStr playerId then [OnOpponentScore msg] else []))"

text \<open>The channels open after a run of effects, starting from the channels \<open>cs\<close>.\<close>

fun openChannels :: "effect list \<Rightarrow> string list \<Rightarrow> string list" where
  "openChannels [] cs = cs"
| "openChannels (Subscribe c # es) cs = openChannels es (cs @ [c])"
| "openChannels (RemoveChannel c # es) cs = openChannels es (remove1 c cs)"
| "openChannels (e # es) cs = openChannels es cs"

subsection \<open>Notions used in the statements\<close>

text \<open>
  Whenever the service is host it has a current lobby: \<^verbatim>\<open>isHost\<close> becomes true only in
  \<^verbatim>\<open>createLobby\<close>, right after \<^verbatim>\<open>currentLobby\<close> is set, and \<^verbatim>\<open>leaveLobby\<close> resets both.
\<close>

definition hostHasLobby :: "service \<Rightarrow> bool" where
  "hostHasLobby s = (isHost s \<longrightarrow> currentLobby s \<noteq> None)"

text \<open>The requests among the effects that write to the store.\<close>

definition storeWrites :: "effect list \<Rightarrow> effect list" where
  "storeWrites es =
     filter (\<lambda>e. case e of
                    InsertLobby c h l st \<Rightarrow> True
                  | InsertPlayer l p r \<Rightarrow> True
                  | UpdateLobbyStatus l st \<Rightarrow> True
                  | UpdatePlayerReady l p r \<Rightarrow> True
                  | DeletePlayer l p \<Rightarrow> True
                  | DeleteLobby l \<Rightarrow> True
                  | _ \<Rightarrow> False) es"

text \<open>A lobby notification whose new row has status \<^verbatim>\<open>playing\<close>.\<close>

definition startsPlaying :: "lobby option \<Rightarrow> bool" where
  "startsPlaying new =
     (case new of None \<Rightarrow> False | Some l \<Rightarrow> status l = Some ''playing'')"

text \<open>
  The payloads that a run of the broadcast handler passed to \<^verbatim>\<open>onOpponentScore\<close>;
  none when the handler threw.
\<close>

definition forwardedTo :: "js_error + effect list \<Rightarrow> jsval list" where
  "forwardedTo res =
     (case res of
        Inl err \<Rightarrow> []
      | Inr es \<Rightarrow> concat (map (\<lambda>e. case e of OnOpponentScore m \<Rightarrow> [m] | _ \<Rightarrow> []) es))"

text \<open>
  A lobby row, the empty object, a membership row and a session with both
  subscriptions, for the concrete instances below.
\<close>

abbreviation sampleLobby :: "string \<Rightarrow> lobby" where
  "sampleLobby st \<equiv>
     \<lparr>id_lobby = Some ''L1'', code = Some ''4FZYO8'', host_id = Some ''H'',
      land = Some ''snow'', status = Some st\<rparr>"

abbreviation emptyObject :: lobby where
  "emptyObject \<equiv> \<lparr>id_lobby = None, code = None, host_id = None, land = None, status = None\<rparr>"

abbreviation samplePlayer :: "string \<Rightarrow> bool \<Rightarrow> player" where
  "samplePlayer p r \<equiv> \<lparr>lobby_id = ''L1'', player_id = p, is_ready = r\<rparr>"

abbreviation sampleSession :: "string \<Rightarrow> player list \<Rightarrow> bool \<Rightarrow> service" where
  "sampleSession st ps h \<equiv>
     \<lparr>supabaseClient = True, currentLobby = Some (sampleLobby st), lobbyPlayers = ps,
      lobbySubscription = Some ''lobby:L1'', playersSubscription = Some ''lobby_players:L1'',
      isHost = h\<rparr>"

section \<open>Properties\<close>

subsection \<open>What the helpers leave alone\<close>

lemma unsubscribe_fields:
  "currentLobby (fst (unsubscribe s)) = currentLobby s"
  "lobbyPlayers (fst (unsubscribe s)) = lobbyPlayers s"
  "isHost (fst (unsubscribe s)) = isHost s"
  "supabaseClient (fst (unsubscribe s)) = supabaseClient s"
  "lobbySubscription (fst (unsubscribe s)) = None"
  "playersSubscription (fst (unsubscribe s)) = None"
  by (simp_all add: unsubscribe_def split: option.splits)

lemma unsubscribe_effects:
  "snd (unsubscribe s) =
     (case lobbySubscription s of Some ch \<Rightarrow> [RemoveChannel ch] | None \<Rightarrow> []) @
     (case playersSubscription s of Some ch \<Rightarrow> [RemoveChannel ch] | None \<Rightarrow> [])"
  by (simp add: unsubscribe_def split: option.splits)

lemma subscribeToLobby_fields:
  "currentLobby (fst (subscribeToLobby i s)) = currentLobby s"
  "lobbyPlayers (fst (subscribeToLobby i s)) = lobbyPlayers s"
  "isHost (fst (subscribeToLobby i s)) = isHost s"
  "supabaseClient (fst (subscribeToLobby i s)) = supabaseClient s"
  by (simp_all add: subscribeToLobby_def unsubscribe_def split: option.splits)


subsection \<open>A host always has a current lobby\<close>

lemma hostHasLobby_init: "hostHasLobby (createMultiplayerService c)"
  by (simp add: hostHasLobby_def createMultiplayerService_def)

lemma hostHasLobby_createLobby:
  "hostHasLobby s \<Longrightarrow> hostHasLobby (fst (snd (createLobby h l r ins jerr s)))"
  by (auto simp: hostHasLobby_def createLobby_def subscribeToLobby_fields Let_def split_beta
           split: sum.splits)

lemma hostHasLobby_findOrCreateLobby:
  "hostHasLobby s \<Longrightarrow> hostHasLobby (fst (snd (findOrCreateLobby p l found r ins jerr s)))"
  using hostHasLobby_createLobby [of s p l r ins jerr]
  by (auto simp: hostHasLobby_def findOrCreateLobby_def subscribeToLobby_fields Let_def split_beta
           split: option.splits list.splits)

lemma hostHasLobby_joinByCode:
  "hostHasLobby s \<Longrightarrow> hostHasLobby (fst (snd (joinByCode c p look jerr s)))"
  by (auto simp: hostHasLobby_def joinByCode_def subscribeToLobby_fields Let_def split_beta
           split: sum.splits option.splits)

lemma hostHasLobby_leaveLobby:
  "hostHasLobby s \<Longrightarrow> hostHasLobby (fst (leaveLobby p s))"
  by (auto simp: hostHasLobby_def leaveLobby_def Let_def split_beta split: option.splits)

lemma hostHasLobby_lobbyChangeHandler:
  "hostHasLobby s \<Longrightarrow> hostHasLobby (fst (lobbyChangeHandler new s))"
  by (auto simp: hostHasLobby_def lobbyChangeHandler_def split: option.splits)

lemma hostHasLobby_refreshPlayersResume:
  "hostHasLobby s \<Longrightarrow> hostHasLobby (fst (refreshPlayersResume resp s))"
  by (auto simp: hostHasLobby_def refreshPlayersResume_def split: sum.splits)

lemma hostHasLobby_playersChangeHandler:
  "hostHasLobby s \<Longrightarrow> hostHasLobby (fst (playersChangeHandler i resp s))"
  by (auto simp: hostHasLobby_def playersChangeHandler_def refreshPlayers_def
                 refreshPlayersResume_def split: sum.splits)

lemma hostHasLobby_unsubscribe:
  "hostHasLobby s \<Longrightarrow> hostHasLobby (fst (unsubscribe s))"
  by (simp add: hostHasLobby_def unsubscribe_fields)

subsection \<open>The readiness check\<close>

lemma checkAllReady_cases:
  assumes "hostHasLobby s"
  shows "checkAllReady s =
           Inr (if isHost s \<and> 2 \<le> length (lobbyPlayers s)
                    \<and> (\<forall>p \<in> set (lobbyPlayers s). is_ready p)
                then [UpdateLobbyStatus (id_lobby (the (currentLobby s))) ''playing'']
                else [])"
  using assms by (auto simp: checkAllReady_def hostHasLobby_def list_all_iff)

text \<open>
  Claim C1. In a state where a host has a current lobby, the readiness check issues
  exactly the update of the current lobby's status to \<^verbatim>\<open>playing\<close> if the service is
  host, the cached players list has at least two rows and every row is ready, and
  issues nothing otherwise. The same holds for the players change-feed handler, for
  the list as it is after the handler's refresh: its only store write is that update,
  under that condition.
\<close>

theorem checkAllReady_starts_iff_host_and_all_ready:
  assumes "hostHasLobby s"
  shows "checkAllReady s =
           Inr (if isHost s \<and> 2 \<le> length (lobbyPlayers s)
                    \<and> (\<forall>p \<in> set (lobbyPlayers s). is_ready p)
                then [UpdateLobbyStatus (id_lobby (the (currentLobby s))) ''playing'']
                else [])
       \<and> (let (s', es, exn) = playersChangeHandler lobbyId resp s
          in exn = None \<and>
             storeWrites es =
               (if isHost s' \<and> 2 \<le> length (lobbyPlayers s')
                    \<and> (\<forall>p \<in> set (lobbyPlayers s'). is_ready p)
                then [UpdateLobbyStatus (id_lobby (the (currentLobby s'))) ''playing'']
                else []))"
proof -
  obtain s1 e1 where r: "refreshPlayers lobbyId resp s = (s1, e1)"
    by (cases "refreshPlayers lobbyId resp s")
  then have inv1: "hostHasLobby s1" and w1: "storeWrites e1 = []"
    using assms
    by (auto simp: refreshPlayers_def refreshPlayersResume_def hostHasLobby_def storeWrites_def
             split: sum.splits)
  show ?thesis
    using checkAllReady_cases [OF assms] checkAllReady_cases [OF inv1] r w1
    by (simp add: playersChangeHandler_def storeWrites_def)
qed

theorem checkAllReady_starts_iff_host_and_all_ready_witness:
  "hostHasLobby (sampleSession ''waiting'' [samplePlayer ''H'' True, samplePlayer ''G'' True] True)
   \<and> checkAllReady
       (sampleSession ''waiting'' [samplePlayer ''H'' True, samplePlayer ''G'' True] True)
       = Inr [UpdateLobbyStatus (Some ''L1'') ''playing'']"
proof -
  have h: "hostHasLobby
             (sampleSession ''waiting'' [samplePlayer ''H'' True, samplePlayer ''G'' True] True)"
    by (simp add: hostHasLobby_def)
  show ?thesis
    using h checkAllReady_starts_iff_host_and_all_ready
              [OF h, of "Some ''L1''" "Inl StoreUnavailable"]
    by simp
qed

text \<open>
  Claim C2, as stated, fails: the readiness check of a host whose cached lobby already
  has status \<^verbatim>\<open>playing\<close>, with two ready players, issues the start update again.
\<close>

theorem checkAllReady_writes_again_when_playing:
  "checkAllReady
     (sampleSession ''playing'' [samplePlayer ''H'' True, samplePlayer ''G'' True] True)
     = Inr [UpdateLobbyStatus (Some ''L1'') ''playing'']"
  by (simp add: checkAllReady_def)

text \<open>
  Claim C2, amended. The readiness check does not read the lobby's status. Invoked
  while the cached lobby has status \<^verbatim>\<open>playing\<close>, it issues the start update of that
  lobby again if the service is host, at least two players are cached and all are
  ready, and nothing otherwise; and its result is the same whatever status the cached
  lobby has.
\<close>

theorem checkAllReady_ignores_status:
  assumes "currentLobby s = Some l" and "status l = Some ''playing''"
  shows "checkAllReady s =
           Inr (if isHost s \<and> 2 \<le> length (lobbyPlayers s) \<and> list_all is_ready (lobbyPlayers s)
                then [UpdateLobbyStatus (id_lobby l) ''playing''] else [])
         \<and> checkAllReady (s\<lparr>currentLobby := Some (l\<lparr>status := st\<rparr>)\<rparr>) = checkAllReady s"
  using assms by (simp add: checkAllReady_def)

theorem checkAllReady_ignores_status_witness:
  "currentLobby
     (sampleSession ''playing'' [samplePlayer ''H'' True, samplePlayer ''G'' True] True)
     = Some (sampleLobby ''playing'')
   \<and> status (sampleLobby ''playing'') = Some ''playing''
   \<and> checkAllReady
       (sampleSession ''waiting'' [samplePlayer ''H'' True, samplePlayer ''G'' True] True)
     = checkAllReady
         (sampleSession ''playing'' [samplePlayer ''H'' True, samplePlayer ''G'' True] True)"
  using checkAllReady_ignores_status
          [of "sampleSession ''playing'' [samplePlayer ''H'' True, samplePlayer ''G'' True] True"
              "sampleLobby ''playing''" "Some ''waiting''"]
  by simp

subsection \<open>The lobby change feed\<close>

lemma lobbyChangeHandler_starts:
  "count_list (snd (lobbyChangeHandler new s)) OnGameStart = (if startsPlaying new then 1 else 0)"
  by (simp add: lobbyChangeHandler_def startsPlaying_def split: option.splits)

text \<open>
  Claim C3, as stated, fails: the same notification of a \<^verbatim>\<open>playing\<close> row delivered
  twice calls \<^verbatim>\<open>onGameStart\<close> twice.
\<close>

theorem lobbyChangeHandler_starts_twice:
  "count_list
     (snd (deliverLobbyChanges [Some (sampleLobby ''playing''), Some (sampleLobby ''playing'')]
             (sampleSession ''waiting'' [samplePlayer ''H'' True, samplePlayer ''G'' True] False)))
     OnGameStart = 2"
  by (simp add: lobbyChangeHandler_def)

text \<open>
  Claim C3, amended. Every delivered lobby notification whose new row has status
  \<^verbatim>\<open>playing\<close> calls \<^verbatim>\<open>onGameStart\<close> once, whether or not it was delivered before: the
  number of calls is the number of such notifications delivered.
\<close>

theorem deliverLobbyChanges_start_count:
  "count_list (snd (deliverLobbyChanges news s)) OnGameStart = length (filter startsPlaying news)"
proof (induction news arbitrary: s)
  case Nil
  show ?case by simp
next
  case (Cons new rest)
  obtain s1 e1 where h: "lobbyChangeHandler new s = (s1, e1)"
    by (cases "lobbyChangeHandler new s")
  have c1: "count_list e1 OnGameStart = (if startsPlaying new then 1 else 0)"
    using lobbyChangeHandler_starts [of new s] h by simp
  obtain s2 e2 where d: "deliverLobbyChanges rest s1 = (s2, e2)"
    by (cases "deliverLobbyChanges rest s1")
  have c2: "count_list e2 OnGameStart = length (filter startsPlaying rest)"
    using Cons.IH [of s1] d by simp
  show ?case using h d c1 c2 by simp
qed

text \<open>
  Claim C4, as stated, fails. The host leaving the waiting lobby issues the delete of
  the lobby row and gets \<^verbatim>\<open>onLobbyUpdate(null)\<close> itself. The guest's lobby handler, given
  the notification of the delete, does not call \<^verbatim>\<open>onLobbyUpdate(null)\<close>: when the
  notification carries the empty object as its new row, the handler takes that object
  as the current lobby and passes it to \<^verbatim>\<open>onLobbyUpdate\<close>; when it carries null, the
  handler changes nothing and calls nothing.
\<close>

theorem guest_not_told_of_deleted_lobby:
  "snd (leaveLobby ''H''
          (sampleSession ''waiting'' [samplePlayer ''H'' False, samplePlayer ''G'' False] True))
     = [DeletePlayer (Some ''L1'') ''H'', DeleteLobby (Some ''L1''), RemoveChannel ''lobby:L1'',
        RemoveChannel ''lobby_players:L1'', OnLobbyUpdate None, OnPlayersUpdate []]
   \<and> lobbyChangeHandler (Some emptyObject)
        (sampleSession ''waiting'' [samplePlayer ''H'' False, samplePlayer ''G'' False] False)
     = (\<lparr>supabaseClient = True, currentLobby = Some emptyObject,
         lobbyPlayers = [samplePlayer ''H'' False, samplePlayer ''G'' False],
         lobbySubscription = Some ''lobby:L1'',
         playersSubscription = Some ''lobby_players:L1'', isHost = False\<rparr>,
        [OnLobbyUpdate (Some emptyObject)])
   \<and> lobbyChangeHandler None
        (sampleSession ''waiting'' [samplePlayer ''H'' False, samplePlayer ''G'' False] False)
     = (sampleSession ''waiting'' [samplePlayer ''H'' False, samplePlayer ''G'' False] False, [])"
  by (simp add: leaveLobby_def unsubscribe_def lobbyChangeHandler_def)

text \<open>
  Claim C4, amended. When the host \<open>h\<close> of a lobby calls \<^verbatim>\<open>leaveLobby\<close> with a non-empty
  id, it issues the delete of the lobby row and its own consumer gets
  \<^verbatim>\<open>onLobbyUpdate(null)\<close>. In any other process \<open>g\<close>, neither change-feed handler ever
  calls \<^verbatim>\<open>onLobbyUpdate\<close> with null, whatever the notification carries: the lobby
  handler does nothing when \<^verbatim>\<open>payload.new\<close> is null, and when it is an object, the
  empty object of a delete included, it makes that object the current lobby and calls
  \<^verbatim>\<open>onLobbyUpdate\<close> with it first.
\<close>

theorem host_leave_deletes_lobby_guest_handlers_never_null:
  assumes "currentLobby h = Some l" and "isHost h" and "playerId \<noteq> []"
  shows "DeleteLobby (id_lobby l) \<in> set (snd (leaveLobby playerId h))
       \<and> OnLobbyUpdate None \<in> set (snd (leaveLobby playerId h))
       \<and> lobbyChangeHandler None g = (g, [])
       \<and> OnLobbyUpdate None \<notin> set (snd (lobbyChangeHandler new g))
       \<and> OnLobbyUpdate None \<notin> set (fst (snd (playersChangeHandler lobbyId resp g)))
       \<and> currentLobby (fst (lobbyChangeHandler (Some obj) g)) = Some obj
       \<and> hd (snd (lobbyChangeHandler (Some obj) g)) = OnLobbyUpdate (Some obj)
       \<and> lobbyChangeHandler (Some emptyObject) g
           = (g\<lparr>currentLobby := Some emptyObject\<rparr>, [OnLobbyUpdate (Some emptyObject)])"
proof -
  have f: "currentLobby (fst (lobbyChangeHandler (Some obj) g)) = Some obj"
    by (simp add: lobbyChangeHandler_def)
  have g: "hd (snd (lobbyChangeHandler (Some obj) g)) = OnLobbyUpdate (Some obj)"
    by (simp add: lobbyChangeHandler_def)
  have i: "lobbyChangeHandler (Some emptyObject) g
             = (g\<lparr>currentLobby := Some emptyObject\<rparr>, [OnLobbyUpdate (Some emptyObject)])"
    by (simp add: lobbyChangeHandler_def)
  have a: "DeleteLobby (id_lobby l) \<in> set (snd (leaveLobby playerId h))"
    using assms by (simp add: leaveLobby_def Let_def split_beta)
  have b: "OnLobbyUpdate None \<in> set (snd (leaveLobby playerId h))"
    using assms by (simp add: leaveLobby_def Let_def split_beta)
  have c: "lobbyChangeHandler None g = (g, [])"
    by (simp add: lobbyChangeHandler_def)
  have d: "OnLobbyUpdate None \<notin> set (snd (lobbyChangeHandler new g))"
    by (simp add: lobbyChangeHandler_def split: option.splits)
  have e: "OnLobbyUpdate None \<notin> set (fst (snd (playersChangeHandler lobbyId resp g)))"
    by (auto simp: playersChangeHandler_def refreshPlayers_def refreshPlayersResume_def
                   checkAllReady_def split: sum.splits option.splits if_splits)
  show ?thesis using a b c d e f g i by simp
qed

theorem host_leave_deletes_lobby_guest_handlers_never_null_witness:
  "currentLobby
     (sampleSession ''waiting'' [samplePlayer ''H'' False, samplePlayer ''G'' False] True)
     = Some (sampleLobby ''waiting'')
   \<and> isHost (sampleSession ''waiting'' [samplePlayer ''H'' False, samplePlayer ''G'' False] True)
   \<and> ''H'' \<noteq> []
   \<and> DeleteLobby (Some ''L1'') \<in> set (snd (leaveLobby ''H''
        (sampleSession ''waiting'' [samplePlayer ''H'' False, samplePlayer ''G'' False] True)))"
  using host_leave_deletes_lobby_guest_handlers_never_null
          [of "sampleSession ''waiting'' [samplePlayer ''H'' False, samplePlayer ''G'' False] True"
              "sampleLobby ''waiting''" "''H''"]
  by simp

subsection \<open>Leaving\<close>

text \<open>
  Claim C5, as stated, fails. A call with an empty id while a lobby is current returns
  at the guard: the session and both handles stay. And after a guest has listened for
  opponent state and then left, the broadcast channel \<^verbatim>\<open>game:L1\<close> is still open.
\<close>

theorem leaveLobby_guard_and_broadcast_channel_left:
  "leaveLobby []
     (sampleSession ''waiting'' [samplePlayer ''H'' False, samplePlayer ''G'' False] False)
     = (sampleSession ''waiting'' [samplePlayer ''H'' False, samplePlayer ''G'' False] False, [])
   \<and> openChannels
       (listenForOpponentState ''G''
          (sampleSession ''waiting'' [samplePlayer ''H'' False, samplePlayer ''G'' False] False)
        @ snd (leaveLobby ''G''
          (sampleSession ''waiting'' [samplePlayer ''H'' False, samplePlayer ''G'' False] False)))
       [''lobby:L1'', ''lobby_players:L1'']
     = [''game:L1'']"
  by (simp add: leaveLobby_def unsubscribe_def listenForOpponentState_def interpolate_def)

text \<open>
  Claim C5, amended. After \<^verbatim>\<open>leaveLobby\<close> called with a non-empty id while a lobby is
  current, the current lobby is null, the players list is empty, the service is not
  host, both change-feed handles are null, and the channel of each handle that was
  held has been removed. A call with an empty id, or with no current lobby, changes
  nothing and does nothing.
\<close>

theorem leaveLobby_clears_session_and_feed_subscriptions:
  assumes "currentLobby s = Some l" and "playerId \<noteq> []"
  shows "currentLobby (fst (leaveLobby playerId s)) = None
       \<and> lobbyPlayers (fst (leaveLobby playerId s)) = []
       \<and> \<not> isHost (fst (leaveLobby playerId s))
       \<and> lobbySubscription (fst (leaveLobby playerId s)) = None
       \<and> playersSubscription (fst (leaveLobby playerId s)) = None
       \<and> (\<forall>ch. lobbySubscription s = Some ch \<longrightarrow>
               RemoveChannel ch \<in> set (snd (leaveLobby playerId s)))
       \<and> (\<forall>ch. playersSubscription s = Some ch \<longrightarrow>
               RemoveChannel ch \<in> set (snd (leaveLobby playerId s)))
       \<and> leaveLobby [] t = (t, [])
       \<and> leaveLobby q (t\<lparr>currentLobby := None\<rparr>) = (t\<lparr>currentLobby := None\<rparr>, [])"
proof -
  have guard: "leaveLobby [] t = (t, [])"
    by (simp add: leaveLobby_def split: option.splits)
  have no_lobby: "leaveLobby q (t\<lparr>currentLobby := None\<rparr>) = (t\<lparr>currentLobby := None\<rparr>, [])"
    by (simp add: leaveLobby_def)
  show ?thesis
    using assms guard no_lobby
    by (simp add: leaveLobby_def Let_def split_beta unsubscribe_fields unsubscribe_effects)
qed

theorem leaveLobby_clears_session_and_feed_subscriptions_witness:
  "currentLobby
     (sampleSession ''waiting'' [samplePlayer ''H'' False, samplePlayer ''G'' False] False)
     = Some (sampleLobby ''waiting'')
   \<and> ''G'' \<noteq> []
   \<and> lobbySubscription
       (sampleSession ''waiting'' [samplePlayer ''H'' False, samplePlayer ''G'' False] False)
     = Some ''lobby:L1''
   \<and> playersSubscription
       (sampleSession ''waiting'' [samplePlayer ''H'' False, samplePlayer ''G'' False] False)
     = Some ''lobby_players:L1''
   \<and> currentLobby (fst (leaveLobby ''G''
       (sampleSession ''waiting'' [samplePlayer ''H'' False, samplePlayer ''G'' False] False)))
     = None
   \<and> RemoveChannel ''lobby:L1'' \<in> set (snd (leaveLobby ''G''
       (sampleSession ''waiting'' [samplePlayer ''H'' False, samplePlayer ''G'' False] False)))
   \<and> RemoveChannel ''lobby_players:L1'' \<in> set (snd (leaveLobby ''G''
       (sampleSession ''waiting'' [samplePlayer ''H'' False, samplePlayer ''G'' False] False)))"
  using leaveLobby_clears_session_and_feed_subscriptions
          [of "sampleSession ''waiting'' [samplePlayer ''H'' False, samplePlayer ''G'' False] False"
              "sampleLobby ''waiting''" "''G''"]
  by simp

subsection \<open>Join codes\<close>

lemma length_generateLobbyCode: "length (generateLobbyCode r) = min 6 (length r - 2)"
  by (auto simp: generateLobbyCode_def toUpperCase_def substring_def Let_def)

lemma upper_alnum_toUpperCase_char:
  "radix36_digit c \<Longrightarrow> upper_alnum (toUpperCase_char c)"
  by (auto simp: radix36_digit_def upper_alnum_def toUpperCase_char_def Let_def)

lemma generateLobbyCode_upper_alnum:
  assumes "list_all radix36_digit (drop 2 r)"
  shows "list_all upper_alnum (generateLobbyCode r)"
proof -
  have "set (substring 2 8 r) \<subseteq> set (drop 2 r)"
    by (auto simp: substring_def Let_def min_def max_def dest: in_set_takeD)
  then show ?thesis
    using assms
    by (auto simp: generateLobbyCode_def toUpperCase_def list_all_iff
             intro: upper_alnum_toUpperCase_char)
qed

text \<open>
  Claim C6 holds only for draws printed with at least six digits after the point. The
  draw 0.5 is printed \<^verbatim>\<open>0.i\<close> in base 36, and the code generated from it is the one
  character \<^verbatim>\<open>I\<close>.
\<close>

theorem generateLobbyCode_of_half_is_one_character:
  "generateLobbyCode ''0.i'' = ''I'' \<and> length (generateLobbyCode ''0.i'') = 1"
  by code_simp

subsection \<open>The broadcast handler\<close>

text \<open>
  Claim C7. For a payload object of any content, the handler installed by
  \<^verbatim>\<open>listenForOpponentState(playerId)\<close> forwards the payload unless its \<^verbatim>\<open>playerId\<close>
  entry is the listener's id. For a payload of any shape: if the participant id read
  from it is the listener's id nothing is forwarded, and if a participant id can be
  read and is anything else the payload is forwarded as it is. For every payload
  whatever: the handler forwards exactly the payload, once, and nothing else, if the
  payload is neither undefined nor null and its participant id is not the listener's
  id; in every other case it forwards nothing. An undefined or null payload has no
  participant id to read: there the handler throws.
\<close>

theorem opponentStateHandler_forwards_iff_other_sender:
  "forwardedTo (opponentStateHandler playerId (JObj props))
     = (if map_of props ''playerId'' = Some (JStr playerId) then [] else [JObj props])
   \<and> (getProp msg ''playerId'' = Inr (JStr playerId) \<longrightarrow>
        forwardedTo (opponentStateHandler playerId msg) = [])
   \<and> (\<forall>sender. getProp msg ''playerId'' = Inr sender \<and> sender \<noteq> JStr playerId \<longrightarrow>
        forwardedTo (opponentStateHandler playerId msg) = [msg])
   \<and> opponentStateHandler playerId any =
        (if any = JUndefined \<or> any = JNull then Inl TypeError
         else if getProp any ''playerId'' = Inr (JStr playerId) then Inr []
         else Inr [OnOpponentScore any])
   \<and> forwardedTo (opponentStateHandler playerId any) =
        (if any = JUndefined \<or> any = JNull \<or> getProp any ''playerId'' = Inr (JStr playerId)
         then [] else [any])"
proof -
  have part: "forwardedTo (opponentStateHandler playerId (JObj props))
                = (if map_of props ''playerId'' = Some (JStr playerId) then [] else [JObj props])
              \<and> (getProp msg ''playerId'' = Inr (JStr playerId) \<longrightarrow>
                   forwardedTo (opponentStateHandler playerId msg) = [])
              \<and> (\<forall>sender. getProp msg ''playerId'' = Inr sender \<and> sender \<noteq> JStr playerId \<longrightarrow>
                   forwardedTo (opponentStateHandler playerId msg) = [msg])"
    by (auto simp: forwardedTo_def opponentStateHandler_def getProp_def split: option.splits)
  have full: "opponentStateHandler playerId any =
                (if any = JUndefined \<or> any = JNull then Inl TypeError
                 else if getProp any ''playerId'' = Inr (JStr playerId) then Inr []
                 else Inr [OnOpponentScore any])"
    by (cases any) (auto simp: opponentStateHandler_def getProp_def split: option.splits)
  have fwd: "forwardedTo (opponentStateHandler playerId any) =
               (if any = JUndefined \<or> any = JNull \<or> getProp any ''playerId'' = Inr (JStr playerId)
                then [] else [any])"
    by (cases any) (auto simp: forwardedTo_def opponentStateHandler_def getProp_def
                         split: option.splits)
  show ?thesis using part full fwd by blast
qed

theorem opponentStateHandler_forwards_iff_other_sender_witness:
  "getProp (JObj [(''playerId'', JStr ''G''), (''score'', JNum 3)]) ''playerId'' = Inr (JStr ''G'')
   \<and> forwardedTo
       (opponentStateHandler ''G'' (JObj [(''playerId'', JStr ''G''), (''score'', JNum 3)])) = []
   \<and> getProp (JObj [(''playerId'', JStr ''H''), (''score'', JNum 3)]) ''playerId'' = Inr (JStr ''H'')
   \<and> JStr ''H'' \<noteq> JStr ''G''
   \<and> forwardedTo
       (opponentStateHandler ''G'' (JObj [(''playerId'', JStr ''H''), (''score'', JNum 3)]))
     = [JObj [(''playerId'', JStr ''H''), (''score'', JNum 3)]]
   \<and> opponentStateHandler ''G'' JNull = Inl TypeError"
proof -
  have thrown: "opponentStateHandler ''G'' JNull = Inl TypeError"
    using opponentStateHandler_forwards_iff_other_sender [of "''G''" "[]" JNull JNull]
    by simp
  have own: "getProp (JObj [(''playerId'', JStr ''G''), (''score'', JNum 3)]) ''playerId''
               = Inr (JStr ''G'')"
    by (simp add: getProp_def)
  have other: "getProp (JObj [(''playerId'', JStr ''H''), (''score'', JNum 3)]) ''playerId''
                 = Inr (JStr ''H'')"
    by (simp add: getProp_def)
  have differ: "JStr ''H'' \<noteq> JStr ''G''"
    by simp
  have dropped: "forwardedTo
                   (opponentStateHandler ''G''
                      (JObj [(''playerId'', JStr ''G''), (''score'', JNum 3)])) = []"
    using own opponentStateHandler_forwards_iff_other_sender
                [of "''G''" "[]" "JObj [(''playerId'', JStr ''G''), (''score'', JNum 3)]" JNull]
    by blast
  have passed: "forwardedTo
                  (opponentStateHandler ''G''
                     (JObj [(''playerId'', JStr ''H''), (''score'', JNum 3)]))
                = [JObj [(''playerId'', JStr ''H''), (''score'', JNum 3)]]"
    using other differ opponentStateHandler_forwards_iff_other_sender
                [of "''G''" "[]" "JObj [(''playerId'', JStr ''H''), (''score'', JNum 3)]" JNull]
    by blast
  show ?thesis using own other differ dropped passed thrown by blast
qed

subsection \<open>Finding and creating\<close>




text \<open>
  Claim C9, as stated, fails: the insert of the lobby row is answered with a conflict,
  and \<^verbatim>\<open>createLobby\<close> returns null after that one insert, the session untouched.
\<close>

theorem createLobby_gives_up_on_conflict:
  "createLobby ''H'' ''snow'' ''0.4fzyo82mvyr'' (Inl Conflict) None (createMultiplayerService True)
     = (None, createMultiplayerService True,
        [InsertLobby ''4FZYO8'' ''H'' ''snow'' ''waiting'', ConsoleError ''Error creating lobby:''])"
  by (simp add: createLobby_def createMultiplayerService_def, code_simp)

text \<open>
  Claim C9, amended. When the insert of the lobby row fails, with a conflict or any
  other error, \<^verbatim>\<open>createLobby\<close> (client present, id non-empty) writes the error to the
  console and returns null: it has generated one code and issued one insert, and the
  session is as before.
\<close>

theorem createLobby_insert_failure_returns_null:
  assumes "supabaseClient s" and "hostId \<noteq> []"
  shows "createLobby hostId land' r (Inl err) jerr s
           = (None, s, [InsertLobby (generateLobbyCode r) hostId land' ''waiting'',
                        ConsoleError ''Error creating lobby:''])"
  using assms by (simp add: createLobby_def)

theorem createLobby_insert_failure_returns_null_witness:
  "supabaseClient (createMultiplayerService True) \<and> ''H'' \<noteq> []
   \<and> fst (createLobby ''H'' ''snow'' ''0.4fzyo82mvyr'' (Inl StoreUnavailable) None
            (createMultiplayerService True)) = None"
  using createLobby_insert_failure_returns_null
          [of "createMultiplayerService True" "''H''" "''snow''" "''0.4fzyo82mvyr''"
              StoreUnavailable None]
  by (simp add: createMultiplayerService_def)

subsection \<open>Toggling readiness\<close>

text \<open>
  Claim C10, as stated, fails: with no current lobby, \<^verbatim>\<open>toggleReady\<close> for a participant
  who is not in the (empty) cached list returns false and writes nothing.
\<close>

theorem toggleReady_without_lobby_returns_false:
  "toggleReady ''P'' (createMultiplayerService True) = (False, [])"
  by (simp add: toggleReady_def createMultiplayerService_def)

text \<open>
  Claim C10, amended. When a lobby is current and the id is non-empty, \<^verbatim>\<open>toggleReady\<close>
  writes, for that lobby and participant, the negation of the ready flag of the
  participant's first row in the cached players list, and returns the value written;
  for a participant with no row in the cached list the value written and returned is
  true. With an empty id, or with no current lobby, it returns false and writes
  nothing.
\<close>

theorem toggleReady_negates_cached_flag:
  assumes "currentLobby s = Some l" and "playerId \<noteq> []"
  shows "(\<forall>p. find (\<lambda>p. player_id p = playerId) (lobbyPlayers s) = Some p \<longrightarrow>
            toggleReady playerId s
              = (\<not> is_ready p, [UpdatePlayerReady (id_lobby l) playerId (\<not> is_ready p)]))
       \<and> (playerId \<notin> player_id ` set (lobbyPlayers s) \<longrightarrow>
            toggleReady playerId s = (True, [UpdatePlayerReady (id_lobby l) playerId True]))
       \<and> toggleReady [] t = (False, [])
       \<and> toggleReady q (t\<lparr>currentLobby := None\<rparr>) = (False, [])"
proof -
  have absent: "find (\<lambda>p. player_id p = playerId) (lobbyPlayers s) = None"
    if "playerId \<notin> player_id ` set (lobbyPlayers s)"
    using that by (auto simp: find_None_iff)
  have guard: "toggleReady [] t = (False, [])"
    by (simp add: toggleReady_def split: option.splits)
  have no_lobby: "toggleReady q (t\<lparr>currentLobby := None\<rparr>) = (False, [])"
    by (simp add: toggleReady_def)
  have present: "toggleReady playerId s
                   = (\<not> is_ready p, [UpdatePlayerReady (id_lobby l) playerId (\<not> is_ready p)])"
    if "find (\<lambda>p. player_id p = playerId) (lobbyPlayers s) = Some p" for p
    using that assms by (simp add: toggleReady_def Let_def)
  have missing: "toggleReady playerId s = (True, [UpdatePlayerReady (id_lobby l) playerId True])"
    if "playerId \<notin> player_id ` set (lobbyPlayers s)"
    using absent [OF that] assms by (simp add: toggleReady_def Let_def)
  show ?thesis
    using present missing guard no_lobby by blast
qed

theorem toggleReady_negates_cached_flag_witness:
  "currentLobby
     (sampleSession ''waiting'' [samplePlayer ''H'' False, samplePlayer ''G'' True] False)
     = Some (sampleLobby ''waiting'')
   \<and> ''G'' \<noteq> [] \<and> ''X'' \<noteq> []
   \<and> find (\<lambda>p. player_id p = ''G'') [samplePlayer ''H'' False, samplePlayer ''G'' True]
     = Some (samplePlayer ''G'' True)
   \<and> toggleReady ''G''
       (sampleSession ''waiting'' [samplePlayer ''H'' False, samplePlayer ''G'' True] False)
     = (False, [UpdatePlayerReady (Some ''L1'') ''G'' False])
   \<and> ''X'' \<notin> player_id ` set [samplePlayer ''H'' False, samplePlayer ''G'' True]
   \<and> toggleReady ''X''
       (sampleSession ''waiting'' [samplePlayer ''H'' False, samplePlayer ''G'' True] False)
     = (True, [UpdatePlayerReady (Some ''L1'') ''X'' True])"
  using toggleReady_negates_cached_flag
          [of "sampleSession ''waiting'' [samplePlayer ''H'' False, samplePlayer ''G'' True] False"
              "sampleLobby ''waiting''" "''G''"]
        toggleReady_negates_cached_flag
          [of "sampleSession ''waiting'' [samplePlayer ''H'' False, samplePlayer ''G'' True] False"
              "sampleLobby ''waiting''" "''X''"]
  by simp

end
